theory Spec2Isabelle
  imports Main
begin

section \<open>JavaScript values and string primitives\<close>

text \<open>
  The request bodies that \<^verbatim>\<open>express.json()\<close> hands to the handlers of
  \<^verbatim>\<open>server.js\<close> are parsed JSON, so a field can hold any JavaScript value.
  Numbers are kept as integers: the handlers only test a number for truthiness.
  \<open>JDate\<close> is a \<^verbatim>\<open>Date\<close> given in milliseconds (the \<^verbatim>\<open>createdAt\<close> fields).
\<close>

datatype jsval =
    JUndefined
  | JNull
  | JBool bool
  | JNum int
  | JStr string
  | JDate nat
  | JArr "jsval list"
  | JObj "(string \<times> jsval) list"

text \<open>What \<^verbatim>\<open>!v\<close> negates: the falsy values are undefined, null, false, 0 and the empty string.\<close>

fun truthy :: "jsval \<Rightarrow> bool" where
  "truthy JUndefined = False"
| "truthy JNull = False"
| "truthy (JBool b) = b"
| "truthy (JNum n) = (n \<noteq> 0)"
| "truthy (JStr s) = (s \<noteq> [])"
| "truthy (JDate t) = True"
| "truthy (JArr vs) = True"
| "truthy (JObj kvs) = True"

text \<open>
  Property read \<^verbatim>\<open>v.k\<close> on a parsed JSON value that is not null or undefined.
  A parsed object holds each key once.
\<close>

fun get_field :: "jsval \<Rightarrow> string \<Rightarrow> jsval" where
  "get_field (JObj kvs) k = (case map_of kvs k of Some v \<Rightarrow> v | None \<Rightarrow> JUndefined)"
| "get_field v k = JUndefined"

text \<open>\<^verbatim>\<open>s.endsWith(suf)\<close>\<close>

definition endsWith :: "string \<Rightarrow> string \<Rightarrow> bool" where
  "endsWith s suf = (length suf \<le> length s \<and> drop (length s - length suf) s = suf)"

text \<open>\<^verbatim>\<open>s.split(d)\<close> for a one-character separator: never empty, \<^verbatim>\<open>''.split(' ')\<close> is \<^verbatim>\<open>['']\<close>.\<close>

fun js_split :: "char \<Rightarrow> string \<Rightarrow> string list" where
  "js_split d [] = [[]]"
| "js_split d (c # cs) =
     (if c = d then [] # js_split d cs
      else (case js_split d cs of
              [] \<Rightarrow> [[c]]
            | w # ws \<Rightarrow> (c # w) # ws))"

text \<open>
  \<^verbatim>\<open>s.trim()\<close>. Node decodes header values as latin1, so every character of the
  Authorization header is one byte; the white space and line terminators of
  ECMAScript in that range are TAB, LF, VT, FF, CR, SP and NBSP.
\<close>

definition js_whitespace :: "char list" where
  "js_whitespace = [CHR 0x09, CHR 0x0A, CHR 0x0B, CHR 0x0C, CHR 0x0D, CHR 0x20, CHR 0xA0]"

definition is_ws :: "char \<Rightarrow> bool" where
  "is_ws c = (c \<in> set js_whitespace)"

definition js_trim :: "string \<Rightarrow> string" where
  "js_trim s = rev (dropWhile is_ws (rev (dropWhile is_ws s)))"

text \<open>\<^verbatim>\<open>xs[i] || ''\<close> on an array of strings: a missing index reads undefined.\<close>

definition index_or_empty :: "string list \<Rightarrow> nat \<Rightarrow> string" where
  "index_or_empty xs i = (if i < length xs then xs ! i else [])"

section \<open>Responses and thrown errors\<close>

record response =
  status :: nat
  json :: jsval

text \<open>\<^verbatim>\<open>res.status(n).json({ error: msg })\<close> and \<^verbatim>\<open>res.json(v)\<close> (status 200).\<close>

definition error_response :: "nat \<Rightarrow> string \<Rightarrow> response" where
  "error_response n msg = \<lparr>status = n, json = JObj [(''error'', JStr msg)]\<rparr>"

definition json_response :: "jsval \<Rightarrow> response" where
  "json_response v = \<lparr>status = 200, json = v\<rparr>"

text \<open>
  What the \<^verbatim>\<open>try\<close> blocks of the handlers can catch: a method call on a value
  that has no such method, bcryptjs refusing a non-string argument, and the two ways a
  Mongoose \<^verbatim>\<open>create\<close> fails on the schemas of this file.
\<close>

datatype exn = TypeError | IllegalArguments | ValidationError | DuplicateKey

section \<open>The collections\<close>

text \<open>
  \<^verbatim>\<open>UserSchema\<close> and \<^verbatim>\<open>ReadingListSchema\<close>. A collection is the list of its
  documents in insertion order. Mongoose's bookkeeping fields (\<^verbatim>\<open>_id\<close>, \<^verbatim>\<open>__v\<close>)
  carry no information the handlers read and are left out. The reading-list
  \<^verbatim>\<open>createdAt\<close> is named \<open>addedAt\<close>.
\<close>

record user =
  email :: string
  passwordHash :: string
  createdAt :: nat

record reading_item =
  userEmail :: string
  bookKey :: string
  title :: "string option"
  coverId :: "int option"
  authors :: "string list"
  addedAt :: nat

record db =
  users :: "user list"
  reading :: "reading_item list"

text \<open>\<^verbatim>\<open>User.findOne({ email })\<close>: the first document with that email.\<close>

definition User_findOne :: "user list \<Rightarrow> string \<Rightarrow> user option" where
  "User_findOne us e = find (\<lambda>u. email u = e) us"

text \<open>
  \<^verbatim>\<open>User.create({ email, passwordHash })\<close>: both paths are required strings (an empty
  string fails the validator), \<^verbatim>\<open>email\<close> has a unique index, \<^verbatim>\<open>createdAt\<close>
  defaults to \<^verbatim>\<open>Date.now\<close>.
\<close>

definition User_create :: "user list \<Rightarrow> string \<Rightarrow> string \<Rightarrow> nat \<Rightarrow> exn + (user \<times> user list)" where
  "User_create us e h now =
     (if e = [] \<or> h = [] then Inl ValidationError
      else if User_findOne us e \<noteq> None then Inl DuplicateKey
      else (let u = \<lparr>email = e, passwordHash = h, createdAt = now\<rparr> in Inr (u, us @ [u])))"

section \<open>The libraries the handlers call\<close>

text \<open>
  bcryptjs is not part of the sources: its two functions are parameters. \<open>bcrypt_hash p
  rounds salt\<close> is \<^verbatim>\<open>bcrypt.hash(p, rounds)\<close> with the random salt it draws made an
  argument, \<open>bcrypt_compare p h\<close> is \<^verbatim>\<open>bcrypt.compare(p, h)\<close>. Both refuse a first
  argument that is not a string, which the two wrappers below write out.
\<close>

record 's bcrypt_lib =
  bcrypt_hash :: "string \<Rightarrow> nat \<Rightarrow> 's \<Rightarrow> string"
  bcrypt_compare :: "string \<Rightarrow> string \<Rightarrow> bool"

definition hash_call :: "'s bcrypt_lib \<Rightarrow> jsval \<Rightarrow> nat \<Rightarrow> 's \<Rightarrow> exn + string" where
  "hash_call B pw rounds salt =
     (case pw of JStr p \<Rightarrow> Inr (bcrypt_hash B p rounds salt) | _ \<Rightarrow> Inl IllegalArguments)"

definition compare_call :: "'s bcrypt_lib \<Rightarrow> jsval \<Rightarrow> string \<Rightarrow> exn + bool" where
  "compare_call B pw h =
     (case pw of JStr p \<Rightarrow> Inr (bcrypt_compare B p h) | _ \<Rightarrow> Inl IllegalArguments)"

text \<open>
  Modelled from the spec: the Session Token Issuer/Verifier (\<^verbatim>\<open>jwt.sign\<close> and
  \<^verbatim>\<open>jwt.verify\<close> of the jsonwebtoken package, which is not part of the sources).
  A token is a signed string that embeds the identity, the time of issue and an
  expiry seven days later; \<open>verify\<close> fails with \<open>InvalidToken\<close> when the string does
  not decode, when its signature is not the one the secret gives, or when it has
  expired. The serialisation and the keyed signature are parameters. Times inside a
  token are in seconds, \<^verbatim>\<open>Date.now()\<close> is in milliseconds. \<open>identity\<close> is the
  \<^verbatim>\<open>email\<close> entry of the payload that login signs and that the handlers read as
  \<^verbatim>\<open>req.user.email\<close>.
\<close>

record claims =
  identity :: string
  issuedAt :: nat
  expiresAt :: nat

datatype jwt_error = InvalidToken

record jwt_lib =
  jwt_mac :: "string \<Rightarrow> claims \<Rightarrow> string"
  jwt_encode :: "claims \<Rightarrow> string \<Rightarrow> string"
  jwt_decode :: "string \<Rightarrow> (claims \<times> string) option"

definition seven_days :: nat where
  "seven_days = 7 * 24 * 60 * 60"

definition token_claims :: "nat \<Rightarrow> string \<Rightarrow> claims" where
  "token_claims now e =
     \<lparr>identity = e, issuedAt = now div 1000, expiresAt = now div 1000 + seven_days\<rparr>"

definition jwt_sign :: "jwt_lib \<Rightarrow> string \<Rightarrow> nat \<Rightarrow> string \<Rightarrow> string" where
  "jwt_sign J secret now e =
     (let c = token_claims now e in jwt_encode J c (jwt_mac J secret c))"

definition jwt_verify :: "jwt_lib \<Rightarrow> string \<Rightarrow> nat \<Rightarrow> string \<Rightarrow> jwt_error + claims" where
  "jwt_verify J secret now tok =
     (case jwt_decode J tok of
        None \<Rightarrow> Inl InvalidToken
      | Some (c, sg) \<Rightarrow>
          if sg \<noteq> jwt_mac J secret c then Inl InvalidToken
          else if expiresAt c \<le> now div 1000 then Inl InvalidToken
          else Inr c)"

text \<open>\<^verbatim>\<open>process.env.JWT_SECRET || 'devsecret'\<close>\<close>

definition JWT_SECRET :: "string option \<Rightarrow> string" where
  "JWT_SECRET env = (case env of None \<Rightarrow> ''devsecret'' | Some s \<Rightarrow> if s = [] then ''devsecret'' else s)"

section \<open>POST /api/login\<close>

definition login_success :: "jwt_lib \<Rightarrow> string \<Rightarrow> nat \<Rightarrow> user \<Rightarrow> response" where
  "login_success J secret now u =
     json_response (JObj [(''token'', JStr (jwt_sign J secret now (email u))),
                          (''email'', JStr (email u))])"

text \<open>
  The body of the \<^verbatim>\<open>try\<close> block: \<open>Inl\<close> is a thrown error, \<open>Inr\<close> the response
  sent together with the collections as the handler leaves them.
\<close>

definition login_try ::
  "'s bcrypt_lib \<Rightarrow> jwt_lib \<Rightarrow> string \<Rightarrow> nat \<Rightarrow> 's \<Rightarrow> jsval \<Rightarrow> db \<Rightarrow> exn + (response \<times> db)" where
  "login_try B J secret now salt reqbody st =
     (let b = (if truthy reqbody then reqbody else JObj []);
          em = get_field b ''email'';
          password = get_field b ''password''
      in if \<not> truthy em \<or> \<not> truthy password
         then Inr (error_response 400 ''Missing email or password'', st)
         else (case em of
            JStr e \<Rightarrow>
              if \<not> endsWith e ''@gmail.com''
              then Inr (error_response 400 ''Only Gmail accounts are allowed'', st)
              else (case User_findOne (users st) e of
                 None \<Rightarrow>
                   (case hash_call B password 10 salt of
                      Inl x \<Rightarrow> Inl x
                    | Inr h \<Rightarrow>
                        (case User_create (users st) e h now of
                           Inl x \<Rightarrow> Inl x
                         | Inr (u, us) \<Rightarrow> Inr (login_success J secret now u, st\<lparr>users := us\<rparr>)))
               | Some u \<Rightarrow>
                   (case compare_call B password (passwordHash u) of
                      Inl x \<Rightarrow> Inl x
                    | Inr valid \<Rightarrow>
                        if \<not> valid then Inr (error_response 401 ''Incorrect password'', st)
                        else Inr (login_success J secret now u, st)))
          | _ \<Rightarrow> Inl TypeError))"

text \<open>The handler: whatever the block throws becomes a 500, before any write.\<close>

definition api_login ::
  "'s bcrypt_lib \<Rightarrow> jwt_lib \<Rightarrow> string \<Rightarrow> nat \<Rightarrow> 's \<Rightarrow> jsval \<Rightarrow> db \<Rightarrow> response \<times> db" where
  "api_login B J secret now salt reqbody st =
     (case login_try B J secret now salt reqbody st of
        Inl x \<Rightarrow> (error_response 500 ''Operation failed'', st)
      | Inr r \<Rightarrow> r)"

section \<open>The access guard and the routes behind it\<close>

text \<open>
  What a handler reads of a request: the Authorization header (absent, or a string),
  the parsed body, and \<^verbatim>\<open>req.user\<close>, which only \<open>auth\<close> sets.
\<close>

record 'b request =
  authorization :: "string option"
  body :: 'b
  user :: "claims option"

text \<open>
  \<^verbatim>\<open>function auth(req, res, next)\<close>. \<open>verify\<close> is \<^verbatim>\<open>jwt.verify(_, JWT_SECRET)\<close> at
  the time of the request. \<open>Inl\<close> is the response sent without calling \<^verbatim>\<open>next\<close>,
  \<open>Inr\<close> the request passed on to \<^verbatim>\<open>next()\<close>.
\<close>

definition auth :: "(string \<Rightarrow> jwt_error + claims) \<Rightarrow> 'b request \<Rightarrow> response + 'b request" where
  "auth verify req =
     (case authorization req of
        None \<Rightarrow> Inl (error_response 401 ''No token'')
      | Some h \<Rightarrow>
          if h = [] then Inl (error_response 401 ''No token'')
          else (let token = js_trim (index_or_empty (js_split CHR '' '' h) 1)
                in case verify token of
                     Inr decoded \<Rightarrow> Inr (req\<lparr>user := Some decoded\<rparr>)
                   | Inl e \<Rightarrow> Inl (error_response 401 ''Invalid token'')))"

text \<open>A route registered as \<^verbatim>\<open>app.METHOD(path, auth, handler)\<close>.\<close>

definition guarded ::
  "(string \<Rightarrow> jwt_error + claims) \<Rightarrow> ('b request \<Rightarrow> db \<Rightarrow> response \<times> db) \<Rightarrow>
   'b request \<Rightarrow> db \<Rightarrow> response \<times> db" where
  "guarded verify handler req st =
     (case auth verify req of
        Inl r \<Rightarrow> (r, st)
      | Inr req' \<Rightarrow> handler req' st)"

subsection \<open>GET /api/me\<close>

definition user_doc :: "user \<Rightarrow> (string \<times> jsval) list" where
  "user_doc u =
     [(''email'', JStr (email u)),
      (''passwordHash'', JStr (passwordHash u)),
      (''createdAt'', JDate (createdAt u))]"

text \<open>A projection \<^verbatim>\<open>{ k: 0, ... }\<close>: the document without the listed paths.\<close>

definition exclude_paths :: "string list \<Rightarrow> (string \<times> jsval) list \<Rightarrow> (string \<times> jsval) list" where
  "exclude_paths ks d = filter (\<lambda>kv. fst kv \<notin> set ks) d"

text \<open>
  \<^verbatim>\<open>res.json(await User.findOne({ email: req.user.email }, { passwordHash: 0 }))\<close>:
  a query that finds nothing gives \<^verbatim>\<open>null\<close>, which is sent with status 200 as well.
\<close>

definition api_me :: "'b request \<Rightarrow> db \<Rightarrow> response \<times> db" where
  "api_me req st =
     (case user req of
        None \<Rightarrow> (error_response 500 ''Failed to fetch profile'', st)
      | Some c \<Rightarrow>
          (json_response
             (case User_findOne (users st) (identity c) of
                None \<Rightarrow> JNull
              | Some u \<Rightarrow> JObj (exclude_paths [''passwordHash''] (user_doc u))),
           st))"

subsection \<open>POST /api/reading\<close>

text \<open>
  The body of a reading-list insert, each field at the type its schema path has
  (\<open>None\<close>: the field is absent).
\<close>

record reading_body =
  req_bookKey :: "string option"
  req_title :: "string option"
  req_coverId :: "int option"
  req_authors :: "string list option"

definition ReadingList_findOne :: "reading_item list \<Rightarrow> string \<Rightarrow> string \<Rightarrow> reading_item option" where
  "ReadingList_findOne rl e k = find (\<lambda>i. userEmail i = e \<and> bookKey i = k) rl"

text \<open>
  \<^verbatim>\<open>ReadingList.create({ userEmail, bookKey, title, coverId, authors })\<close>: the first
  two paths are required strings, an absent array path is stored empty.
\<close>

definition ReadingList_create ::
  "reading_item list \<Rightarrow> string \<Rightarrow> string \<Rightarrow> string option \<Rightarrow> int option \<Rightarrow> string list option \<Rightarrow> nat \<Rightarrow>
   exn + (reading_item \<times> reading_item list)" where
  "ReadingList_create rl e k t c a now =
     (if e = [] \<or> k = [] then Inl ValidationError
      else (let i = \<lparr>userEmail = e, bookKey = k, title = t, coverId = c,
                      authors = (case a of None \<Rightarrow> [] | Some xs \<Rightarrow> xs), addedAt = now\<rparr>
            in Inr (i, rl @ [i])))"

definition item_doc :: "reading_item \<Rightarrow> jsval" where
  "item_doc i =
     JObj ([(''userEmail'', JStr (userEmail i)), (''bookKey'', JStr (bookKey i))]
           @ (case title i of None \<Rightarrow> [] | Some t \<Rightarrow> [(''title'', JStr t)])
           @ (case coverId i of None \<Rightarrow> [] | Some n \<Rightarrow> [(''coverId'', JNum n)])
           @ [(''authors'', JArr (map JStr (authors i))), (''createdAt'', JDate (addedAt i))])"

definition api_reading_post :: "nat \<Rightarrow> reading_body request \<Rightarrow> db \<Rightarrow> response \<times> db" where
  "api_reading_post now req st =
     (case req_bookKey (body req) of
        None \<Rightarrow> (error_response 400 ''Book key is required'', st)
      | Some k \<Rightarrow>
          if k = [] then (error_response 400 ''Book key is required'', st)
          else (case user req of
             None \<Rightarrow> (error_response 500 ''Failed to add to reading list'', st)
           | Some c \<Rightarrow>
               (case ReadingList_findOne (reading st) (identity c) k of
                  Some existing \<Rightarrow> (error_response 409 ''Already in reading list'', st)
                | None \<Rightarrow>
                    (case ReadingList_create (reading st) (identity c) k
                            (req_title (body req)) (req_coverId (body req))
                            (req_authors (body req)) now of
                       Inl x \<Rightarrow> (error_response 500 ''Failed to add to reading list'', st)
                     | Inr (item, rl) \<Rightarrow> (json_response (item_doc item), st\<lparr>reading := rl\<rparr>)))))"

section \<open>The invariant of the user collection\<close>

text \<open>Every stored account has an address of the accepted domain.\<close>

definition gmail_accounts :: "db \<Rightarrow> bool" where
  "gmail_accounts st = list_all (\<lambda>u. endsWith (email u) ''@gmail.com'') (users st)"

section \<open>Library instances for concrete runs\<close>

text \<open>
  Small executable stand-ins for the two libraries, used where a property is run on a
  concrete request: a hash that prefixes the salt, and a token of the form
  \<open>signature:identity\<close>, read back as issued at time 0 for seven days.
\<close>

definition run_bcrypt :: "string bcrypt_lib" where
  "run_bcrypt =
     \<lparr>bcrypt_hash = (\<lambda>p rounds salt. salt @ ''$'' @ p),
      bcrypt_compare = (\<lambda>p h. endsWith h (''$'' @ p))\<rparr>"

definition run_jwt :: jwt_lib where
  "run_jwt =
     \<lparr>jwt_mac = (\<lambda>secret c. rev secret),
      jwt_encode = (\<lambda>c sg. sg @ '':'' @ identity c),
      jwt_decode = (\<lambda>tok. case js_split CHR '':'' tok of
                            [sg, e] \<Rightarrow> if sg = [] then None
                                       else Some (\<lparr>identity = e, issuedAt = 0, expiresAt = seven_days\<rparr>, sg)
                          | _ \<Rightarrow> None)\<rparr>"

section \<open>Lemmas on the string primitives and on \<open>find\<close>\<close>

lemma js_split_not_Nil: "js_split d s \<noteq> []"
  by (induction s) (auto split: list.splits)

lemma js_split_no_separator: "d \<notin> set s \<Longrightarrow> js_split d s = [s]"
  by (induction s) auto

lemma js_split_first_separator:
  "d \<notin> set w \<Longrightarrow> js_split d (w @ d # rest) = w # js_split d rest"
  by (induction w) auto

lemma dropWhile_none: "\<forall>c\<in>set s. \<not> P c \<Longrightarrow> dropWhile P s = s"
  by (cases s) auto

lemma js_trim_no_ws: "\<forall>c\<in>set s. \<not> is_ws c \<Longrightarrow> js_trim s = s"
  by (simp add: js_trim_def dropWhile_none)

lemma space_is_ws: "is_ws CHR '' ''"
  by (simp add: is_ws_def js_whitespace_def)

text \<open>What \<open>auth\<close> extracts from \<open>word token\<close>, and from a header without a space.\<close>

lemma extract_second:
  assumes "CHR '' '' \<notin> set w" and "\<forall>c\<in>set tok. \<not> is_ws c"
  shows "js_trim (index_or_empty (js_split CHR '' '' (w @ CHR '' '' # tok)) 1) = tok"
proof -
  have "CHR '' '' \<notin> set tok" using assms(2) space_is_ws by blast
  then have "js_split CHR '' '' (w @ CHR '' '' # tok) = [w, tok]"
    using assms(1) by (simp add: js_split_first_separator js_split_no_separator)
  then show ?thesis using assms(2) by (simp add: index_or_empty_def js_trim_no_ws)
qed

lemma extract_bare:
  assumes "CHR '' '' \<notin> set tok"
  shows "js_trim (index_or_empty (js_split CHR '' '' tok) 1) = []"
  using assms by (simp add: js_split_no_separator index_or_empty_def js_trim_def)

lemma bearer_admits:
  assumes "authorization req = Some (''Bearer '' @ tok)"
    and "\<forall>c\<in>set tok. \<not> is_ws c" and "verify tok = Inr d"
  shows "auth verify req = Inr (req\<lparr>user := Some d\<rparr>)"
proof -
  have "js_trim (index_or_empty (js_split CHR '' '' (''Bearer'' @ CHR '' '' # tok)) 1) = tok"
    using assms(2) by (intro extract_second) simp_all
  then show ?thesis using assms(1,3) by (simp add: auth_def)
qed

lemma find_None_filter: "find P xs = None \<Longrightarrow> filter P xs = []"
  by (induction xs) (auto split: if_splits)

lemma find_Some_holds: "find P xs = Some x \<Longrightarrow> P x"
  by (induction xs) (auto split: if_splits)

section \<open>The login endpoint\<close>

text \<open>
  Claim C1. A login request whose email is a string that does not end in
  \<^verbatim>\<open>@gmail.com\<close> is answered with status 400, whatever the password field holds
  (any value, or none), and the collections are left as they were: no account is
  created.
\<close>

theorem login_rejects_other_domains:
  assumes "get_field reqbody ''email'' = JStr e"
    and "\<not> endsWith e ''@gmail.com''"
  shows "fst (api_login B J secret now salt reqbody st) =
           error_response 400 (if e = [] \<or> \<not> truthy (get_field reqbody ''password'')
                               then ''Missing email or password''
                               else ''Only Gmail accounts are allowed'')
         \<and> status (fst (api_login B J secret now salt reqbody st)) = 400
         \<and> snd (api_login B J secret now salt reqbody st) = st"
proof -
  obtain kvs where rb: "reqbody = JObj kvs"
    using assms(1) by (cases reqbody) simp_all
  show ?thesis
    using assms unfolding rb api_login_def login_try_def
    by (simp add: Let_def error_response_def)
qed

theorem login_rejects_other_domains_witness:
  "get_field (JObj [(''email'', JStr ''bob@yahoo.com''), (''password'', JStr ''x'')]) ''email''
     = JStr ''bob@yahoo.com''
   \<and> \<not> endsWith ''bob@yahoo.com'' ''@gmail.com''
   \<and> fst (api_login run_bcrypt run_jwt (JWT_SECRET None) 0 ''salt''
            (JObj [(''email'', JStr ''bob@yahoo.com''), (''password'', JStr ''x'')])
            \<lparr>users = [], reading = []\<rparr>)
       = error_response 400 ''Only Gmail accounts are allowed''
   \<and> snd (api_login run_bcrypt run_jwt (JWT_SECRET None) 0 ''salt''
            (JObj [(''email'', JStr ''bob@yahoo.com''), (''password'', JStr ''x'')])
            \<lparr>users = [], reading = []\<rparr>)
       = \<lparr>users = [], reading = []\<rparr>"
proof -
  have h1: "get_field (JObj [(''email'', JStr ''bob@yahoo.com''), (''password'', JStr ''x'')]) ''email''
              = JStr ''bob@yahoo.com''"
    by simp
  have h2: "\<not> endsWith ''bob@yahoo.com'' ''@gmail.com''"
    by (simp add: endsWith_def)
  show ?thesis
    using h1 h2
      login_rejects_other_domains [OF h1 h2, where B = run_bcrypt and J = run_jwt
        and secret = "JWT_SECRET None" and now = 0 and salt = "''salt''"
        and st = "\<lparr>users = [], reading = []\<rparr>"]
    by simp
qed

text \<open>
  Claim C2. A login request with an address of the accepted domain that no stored
  account has, and with a password (a non-empty string), is answered with status 200
  and a body holding a token and the address; it appends one account to the user
  collection, whose \<open>passwordHash\<close> is the bcrypt hash (cost 10, fresh salt) of the
  password, and afterwards exactly one account has that address.
\<close>

theorem login_registers:
  assumes em: "get_field reqbody ''email'' = JStr e"
    and dom: "endsWith e ''@gmail.com''"
    and pw: "get_field reqbody ''password'' = JStr p"
    and pne: "p \<noteq> []"
    and fresh: "User_findOne (users st) e = None"
    and hne: "bcrypt_hash B p 10 salt \<noteq> []"
  shows "api_login B J secret now salt reqbody st =
           (\<lparr>status = 200,
             json = JObj [(''token'', JStr (jwt_sign J secret now e)), (''email'', JStr e)]\<rparr>,
            st\<lparr>users := users st @ [\<lparr>email = e, passwordHash = bcrypt_hash B p 10 salt, createdAt = now\<rparr>]\<rparr>)
         \<and> filter (\<lambda>u. email u = e) (users (snd (api_login B J secret now salt reqbody st))) =
             [\<lparr>email = e, passwordHash = bcrypt_hash B p 10 salt, createdAt = now\<rparr>]
         \<and> length (users (snd (api_login B J secret now salt reqbody st))) = Suc (length (users st))"
proof -
  obtain kvs where rb: "reqbody = JObj kvs"
    using em by (cases reqbody) simp_all
  have ene: "e \<noteq> []" using dom by (auto simp: endsWith_def)
  have res: "api_login B J secret now salt reqbody st =
           (\<lparr>status = 200,
             json = JObj [(''token'', JStr (jwt_sign J secret now e)), (''email'', JStr e)]\<rparr>,
            st\<lparr>users := users st @ [\<lparr>email = e, passwordHash = bcrypt_hash B p 10 salt, createdAt = now\<rparr>]\<rparr>)"
    using em dom pw pne fresh hne ene unfolding rb api_login_def login_try_def
    by (simp add: Let_def hash_call_def User_create_def login_success_def json_response_def)
  have none: "filter (\<lambda>u. email u = e) (users st) = []"
    using fresh unfolding User_findOne_def by (rule find_None_filter)
  show ?thesis unfolding res using none by simp
qed

theorem login_registers_witness:
  "api_login run_bcrypt run_jwt (JWT_SECRET None) 0 ''salt''
     (JObj [(''email'', JStr ''a@gmail.com''), (''password'', JStr ''x'')])
     \<lparr>users = [], reading = []\<rparr>
   = (\<lparr>status = 200,
       json = JObj [(''token'', JStr ''tercesved:a@gmail.com''), (''email'', JStr ''a@gmail.com'')]\<rparr>,
      \<lparr>users = [\<lparr>email = ''a@gmail.com'', passwordHash = ''salt$x'', createdAt = 0\<rparr>],
       reading = []\<rparr>)"
proof -
  have h1: "get_field (JObj [(''email'', JStr ''a@gmail.com''), (''password'', JStr ''x'')]) ''email''
              = JStr ''a@gmail.com''"
    by simp
  have h2: "endsWith ''a@gmail.com'' ''@gmail.com''"
    by (simp add: endsWith_def)
  have h3: "get_field (JObj [(''email'', JStr ''a@gmail.com''), (''password'', JStr ''x'')]) ''password''
              = JStr ''x''"
    by simp
  have h4: "''x'' \<noteq> []" by simp
  have h5: "User_findOne (users \<lparr>users = [], reading = []\<rparr>) ''a@gmail.com'' = None"
    by (simp add: User_findOne_def)
  have h6: "bcrypt_hash run_bcrypt ''x'' 10 ''salt'' \<noteq> []"
    by (simp add: run_bcrypt_def)
  show ?thesis
    using login_registers [OF h1 h2 h3 h4 h5 h6, where J = run_jwt
        and secret = "JWT_SECRET None" and now = 0]
    by (simp add: run_bcrypt_def run_jwt_def jwt_sign_def token_claims_def JWT_SECRET_def)
qed

text \<open>
  Claim C3. When the user collection holds an account for the address (of the accepted
  domain) and bcrypt's comparison accepts the supplied password against its stored
  hash, the login is answered with status 200, a token and the address, and the
  collections are exactly as before: the account found for the address afterwards is
  the same record, with the same \<open>passwordHash\<close> and \<open>createdAt\<close>.
\<close>

theorem login_existing_correct:
  assumes em: "get_field reqbody ''email'' = JStr e"
    and dom: "endsWith e ''@gmail.com''"
    and pw: "get_field reqbody ''password'' = JStr p"
    and pne: "p \<noteq> []"
    and found: "User_findOne (users st) e = Some u"
    and ok: "bcrypt_compare B p (passwordHash u)"
  shows "api_login B J secret now salt reqbody st =
           (\<lparr>status = 200,
             json = JObj [(''token'', JStr (jwt_sign J secret now e)), (''email'', JStr e)]\<rparr>, st)
         \<and> User_findOne (users (snd (api_login B J secret now salt reqbody st))) e = Some u"
proof -
  obtain kvs where rb: "reqbody = JObj kvs"
    using em by (cases reqbody) simp_all
  have ene: "e \<noteq> []" using dom by (auto simp: endsWith_def)
  have eu: "email u = e" using found unfolding User_findOne_def by (rule find_Some_holds)
  have res: "api_login B J secret now salt reqbody st =
           (\<lparr>status = 200,
             json = JObj [(''token'', JStr (jwt_sign J secret now e)), (''email'', JStr e)]\<rparr>, st)"
    using em dom pw pne found ok ene eu unfolding rb api_login_def login_try_def
    by (simp add: Let_def compare_call_def login_success_def json_response_def)
  show ?thesis unfolding res using found by simp
qed

theorem login_existing_correct_witness:
  "api_login run_bcrypt run_jwt (JWT_SECRET None) 5000 ''pepper''
     (JObj [(''email'', JStr ''a@gmail.com''), (''password'', JStr ''x'')])
     \<lparr>users = [\<lparr>email = ''a@gmail.com'', passwordHash = ''salt$x'', createdAt = 0\<rparr>], reading = []\<rparr>
   = (\<lparr>status = 200,
       json = JObj [(''token'', JStr (jwt_sign run_jwt (JWT_SECRET None) 5000 ''a@gmail.com'')),
                    (''email'', JStr ''a@gmail.com'')]\<rparr>,
      \<lparr>users = [\<lparr>email = ''a@gmail.com'', passwordHash = ''salt$x'', createdAt = 0\<rparr>], reading = []\<rparr>)"
proof -
  have h1: "get_field (JObj [(''email'', JStr ''a@gmail.com''), (''password'', JStr ''x'')]) ''email''
              = JStr ''a@gmail.com''"
    by simp
  have h2: "endsWith ''a@gmail.com'' ''@gmail.com''"
    by (simp add: endsWith_def)
  have h3: "get_field (JObj [(''email'', JStr ''a@gmail.com''), (''password'', JStr ''x'')]) ''password''
              = JStr ''x''"
    by simp
  have h4: "''x'' \<noteq> []" by simp
  have h5: "User_findOne
              (users \<lparr>users = [\<lparr>email = ''a@gmail.com'', passwordHash = ''salt$x'', createdAt = 0\<rparr>],
                      reading = []\<rparr>) ''a@gmail.com''
            = Some \<lparr>email = ''a@gmail.com'', passwordHash = ''salt$x'', createdAt = 0\<rparr>"
    by (simp add: User_findOne_def)
  have h6: "bcrypt_compare run_bcrypt ''x''
              (passwordHash \<lparr>email = ''a@gmail.com'', passwordHash = ''salt$x'', createdAt = 0\<rparr>)"
    by (simp add: run_bcrypt_def endsWith_def)
  show ?thesis
    using login_existing_correct [OF h1 h2 h3 h4 h5 h6, where J = run_jwt
        and secret = "JWT_SECRET None" and now = 5000 and salt = "''pepper''"]
    by simp
qed

text \<open>
  Claim C4. When the user collection holds an account for the address (of the accepted
  domain) and bcrypt's comparison rejects the supplied password (a non-empty string)
  against its stored hash, the login is answered with status 401 and the collections
  are exactly as before.
\<close>

theorem login_existing_wrong:
  assumes em: "get_field reqbody ''email'' = JStr e"
    and dom: "endsWith e ''@gmail.com''"
    and pw: "get_field reqbody ''password'' = JStr p"
    and pne: "p \<noteq> []"
    and found: "User_findOne (users st) e = Some u"
    and bad: "\<not> bcrypt_compare B p (passwordHash u)"
  shows "api_login B J secret now salt reqbody st = (error_response 401 ''Incorrect password'', st)
         \<and> status (fst (api_login B J secret now salt reqbody st)) = 401"
proof -
  obtain kvs where rb: "reqbody = JObj kvs"
    using em by (cases reqbody) simp_all
  have ene: "e \<noteq> []" using dom by (auto simp: endsWith_def)
  have res: "api_login B J secret now salt reqbody st = (error_response 401 ''Incorrect password'', st)"
    using em dom pw pne found bad ene unfolding rb api_login_def login_try_def
    by (simp add: Let_def compare_call_def)
  show ?thesis unfolding res by (simp add: error_response_def)
qed

theorem login_existing_wrong_witness:
  "api_login run_bcrypt run_jwt (JWT_SECRET None) 5000 ''pepper''
     (JObj [(''email'', JStr ''a@gmail.com''), (''password'', JStr ''wrong'')])
     \<lparr>users = [\<lparr>email = ''a@gmail.com'', passwordHash = ''salt$x'', createdAt = 0\<rparr>], reading = []\<rparr>
   = (\<lparr>status = 401, json = JObj [(''error'', JStr ''Incorrect password'')]\<rparr>,
      \<lparr>users = [\<lparr>email = ''a@gmail.com'', passwordHash = ''salt$x'', createdAt = 0\<rparr>], reading = []\<rparr>)"
proof -
  have h1: "get_field (JObj [(''email'', JStr ''a@gmail.com''), (''password'', JStr ''wrong'')]) ''email''
              = JStr ''a@gmail.com''"
    by simp
  have h2: "endsWith ''a@gmail.com'' ''@gmail.com''"
    by (simp add: endsWith_def)
  have h3: "get_field (JObj [(''email'', JStr ''a@gmail.com''), (''password'', JStr ''wrong'')]) ''password''
              = JStr ''wrong''"
    by simp
  have h4: "''wrong'' \<noteq> []" by simp
  have h5: "User_findOne
              (users \<lparr>users = [\<lparr>email = ''a@gmail.com'', passwordHash = ''salt$x'', createdAt = 0\<rparr>],
                      reading = []\<rparr>) ''a@gmail.com''
            = Some \<lparr>email = ''a@gmail.com'', passwordHash = ''salt$x'', createdAt = 0\<rparr>"
    by (simp add: User_findOne_def)
  have h6: "\<not> bcrypt_compare run_bcrypt ''wrong''
              (passwordHash \<lparr>email = ''a@gmail.com'', passwordHash = ''salt$x'', createdAt = 0\<rparr>)"
    by (simp add: run_bcrypt_def endsWith_def)
  show ?thesis
    using login_existing_wrong [OF h1 h2 h3 h4 h5 h6, where J = run_jwt
        and secret = "JWT_SECRET None" and now = 5000 and salt = "''pepper''"]
    by (simp add: error_response_def)
qed

text \<open>
  The other ways out of the handler. An email that is truthy but not a string has no
  \<^verbatim>\<open>endsWith\<close>, and bcryptjs refuses a password that is not a string: both end in
  the \<^verbatim>\<open>catch\<close>, with status 500 and nothing written.
\<close>

lemma login_email_not_string:
  assumes "truthy (get_field reqbody ''email'')" and "truthy (get_field reqbody ''password'')"
    and "\<forall>e. get_field reqbody ''email'' \<noteq> JStr e"
  shows "api_login B J secret now salt reqbody st = (error_response 500 ''Operation failed'', st)"
proof -
  obtain kvs where rb: "reqbody = JObj kvs"
    using assms(1) by (cases reqbody) simp_all
  show ?thesis
    using assms unfolding rb api_login_def login_try_def
    by (cases "get_field (JObj kvs) ''email''") (simp_all add: Let_def)
qed

lemma login_password_not_string:
  assumes "get_field reqbody ''email'' = JStr e" and "endsWith e ''@gmail.com''"
    and "truthy (get_field reqbody ''password'')"
    and "\<forall>p. get_field reqbody ''password'' \<noteq> JStr p"
  shows "api_login B J secret now salt reqbody st = (error_response 500 ''Operation failed'', st)"
proof -
  obtain kvs where rb: "reqbody = JObj kvs"
    using assms(1) by (cases reqbody) simp_all
  have ene: "e \<noteq> []" using assms(2) by (auto simp: endsWith_def)
  show ?thesis
    using assms ene unfolding rb api_login_def login_try_def
    by (cases "get_field (JObj kvs) ''password''")
       (simp_all add: Let_def hash_call_def compare_call_def split: option.splits)
qed

text \<open>
  The accounts that login writes all have an address of the accepted domain, which is
  why the claims on stored accounts read them under such an address.
\<close>

lemma login_try_users:
  assumes "login_try B J secret now salt reqbody st = Inr (r, st')"
  shows "users st' = users st \<or>
         (\<exists>e h. endsWith e ''@gmail.com'' \<and> users st' = users st @ [\<lparr>email = e, passwordHash = h, createdAt = now\<rparr>])"
  using assms unfolding login_try_def
  by (auto simp: Let_def User_create_def hash_call_def compare_call_def
           split: if_splits jsval.splits option.splits sum.splits)

lemma api_login_keeps_gmail_accounts:
  assumes "gmail_accounts st"
  shows "gmail_accounts (snd (api_login B J secret now salt reqbody st))"
proof (cases "login_try B J secret now salt reqbody st")
  case (Inl x)
  then show ?thesis using assms by (simp add: api_login_def)
next
  case (Inr r)
  obtain res st' where r: "r = (res, st')" by (cases r)
  from login_try_users[OF Inr[unfolded r]] assms
  have "gmail_accounts st'" by (auto simp: gmail_accounts_def)
  then show ?thesis using Inr r by (simp add: api_login_def)
qed

section \<open>Session tokens\<close>

text \<open>
  Claim C5. A token issued for an identity with the process secret is accepted by
  \<open>jwt_verify\<close> with the same secret at any time before its expiry, seven days after
  issue, and the claims it yields carry the identity it was issued for. The library's
  serialisation is asked to decode what it encoded for this token.
\<close>

theorem token_roundtrip:
  assumes codec: "jwt_decode J (jwt_encode J (token_claims now e) (jwt_mac J secret (token_claims now e)))
                    = Some (token_claims now e, jwt_mac J secret (token_claims now e))"
    and unexpired: "now' div 1000 < now div 1000 + seven_days"
  shows "jwt_verify J secret now' (jwt_sign J secret now e) = Inr (token_claims now e)
         \<and> identity (token_claims now e) = e
         \<and> expiresAt (token_claims now e) = issuedAt (token_claims now e) + 7 * 24 * 60 * 60"
proof -
  have exp: "expiresAt (token_claims now e) = now div 1000 + seven_days"
    by (simp add: token_claims_def)
  have "jwt_verify J secret now' (jwt_sign J secret now e) = Inr (token_claims now e)"
    using codec unexpired exp by (simp add: jwt_verify_def jwt_sign_def Let_def)
  then show ?thesis by (simp add: token_claims_def seven_days_def)
qed

theorem token_roundtrip_witness:
  "jwt_verify run_jwt (JWT_SECRET None) 999 (jwt_sign run_jwt (JWT_SECRET None) 0 ''a@gmail.com'')
     = Inr \<lparr>identity = ''a@gmail.com'', issuedAt = 0, expiresAt = 604800\<rparr>"
proof -
  have h1: "jwt_decode run_jwt
              (jwt_encode run_jwt (token_claims 0 ''a@gmail.com'')
                 (jwt_mac run_jwt (JWT_SECRET None) (token_claims 0 ''a@gmail.com'')))
            = Some (token_claims 0 ''a@gmail.com'',
                    jwt_mac run_jwt (JWT_SECRET None) (token_claims 0 ''a@gmail.com''))"
    by (simp add: run_jwt_def token_claims_def JWT_SECRET_def)
  have h2: "(999::nat) div 1000 < 0 div 1000 + seven_days"
    by (simp add: seven_days_def)
  show ?thesis
    using token_roundtrip [OF h1 h2]
    by (simp add: token_claims_def seven_days_def)
qed

text \<open>
  Claim C6. \<open>jwt_verify\<close> fails with \<open>InvalidToken\<close> on a token that does not decode, on
  one whose signature is not the one the secret gives for its claims, and on one whose
  expiry has passed. It has two outcomes only: \<open>InvalidToken\<close>, or the claims of a
  well-formed, rightly signed, unexpired token. The guard answers every failure with
  the same 401.
\<close>

theorem verify_rejects:
  "((jwt_decode J tok = None
      \<or> (\<exists>c sg. jwt_decode J tok = Some (c, sg) \<and> (sg \<noteq> jwt_mac J secret c \<or> expiresAt c \<le> now div 1000)))
     \<longrightarrow> jwt_verify J secret now tok = Inl InvalidToken)
   \<and> (jwt_verify J secret now tok = Inl InvalidToken
        \<or> (\<exists>c. jwt_verify J secret now tok = Inr c \<and> jwt_decode J tok = Some (c, jwt_mac J secret c)
                 \<and> now div 1000 < expiresAt c))
   \<and> (jwt_verify J secret now tok = Inl InvalidToken \<longrightarrow> authorization req = Some (''Bearer '' @ tok) \<longrightarrow>
        (\<forall>c\<in>set tok. \<not> is_ws c) \<longrightarrow>
        auth (jwt_verify J secret now) req = Inl (error_response 401 ''Invalid token''))"
proof (intro conjI impI)
  assume "jwt_decode J tok = None
      \<or> (\<exists>c sg. jwt_decode J tok = Some (c, sg) \<and> (sg \<noteq> jwt_mac J secret c \<or> expiresAt c \<le> now div 1000))"
  then show "jwt_verify J secret now tok = Inl InvalidToken"
    by (auto simp: jwt_verify_def)
next
  show "jwt_verify J secret now tok = Inl InvalidToken
        \<or> (\<exists>c. jwt_verify J secret now tok = Inr c \<and> jwt_decode J tok = Some (c, jwt_mac J secret c)
                 \<and> now div 1000 < expiresAt c)"
    by (auto simp: jwt_verify_def split: option.splits)
next
  assume bad: "jwt_verify J secret now tok = Inl InvalidToken"
    and h: "authorization req = Some (''Bearer '' @ tok)"
    and ws: "\<forall>c\<in>set tok. \<not> is_ws c"
  have "js_trim (index_or_empty (js_split CHR '' '' (''Bearer'' @ CHR '' '' # tok)) 1) = tok"
    using ws by (intro extract_second) simp_all
  then show "auth (jwt_verify J secret now) req = Inl (error_response 401 ''Invalid token'')"
    using bad h by (simp add: auth_def)
qed

theorem verify_rejects_witness:
  "jwt_decode run_jwt ''forged:a@gmail.com''
     = Some (\<lparr>identity = ''a@gmail.com'', issuedAt = 0, expiresAt = 604800\<rparr>, ''forged'')
   \<and> ''forged'' \<noteq> jwt_mac run_jwt (JWT_SECRET None) \<lparr>identity = ''a@gmail.com'', issuedAt = 0, expiresAt = 604800\<rparr>
   \<and> jwt_verify run_jwt (JWT_SECRET None) 5000 ''forged:a@gmail.com'' = Inl InvalidToken
   \<and> auth (jwt_verify run_jwt (JWT_SECRET None) 5000)
        \<lparr>authorization = Some ''Bearer forged:a@gmail.com'', body = (), user = None\<rparr>
       = Inl \<lparr>status = 401, json = JObj [(''error'', JStr ''Invalid token'')]\<rparr>"
proof -
  have h1: "jwt_decode run_jwt ''forged:a@gmail.com''
              = Some (\<lparr>identity = ''a@gmail.com'', issuedAt = 0, expiresAt = 604800\<rparr>, ''forged'')"
    by (simp add: run_jwt_def seven_days_def)
  have h2: "''forged'' \<noteq> jwt_mac run_jwt (JWT_SECRET None)
                           \<lparr>identity = ''a@gmail.com'', issuedAt = 0, expiresAt = 604800\<rparr>"
    by (simp add: run_jwt_def JWT_SECRET_def)
  have h3: "authorization \<lparr>authorization = Some ''Bearer forged:a@gmail.com'', body = (), user = None\<rparr>
              = Some (''Bearer '' @ ''forged:a@gmail.com'')"
    by simp
  have h4: "\<forall>c\<in>set ''forged:a@gmail.com''. \<not> is_ws c"
    by (simp add: is_ws_def js_whitespace_def)
  show ?thesis
    using h1 h2 h3 h4
      verify_rejects [where J = run_jwt and tok = "''forged:a@gmail.com''"
        and secret = "JWT_SECRET None" and now = 5000
        and req = "\<lparr>authorization = Some ''Bearer forged:a@gmail.com'', body = (), user = None\<rparr>"]
    by (auto simp: error_response_def)
qed

section \<open>The access guard\<close>

text \<open>
  Claim C7. On a route behind \<open>auth\<close>, a request without an Authorization header is
  answered 401 by the guard and the handler is not run (the result does not depend on
  it and the collections are untouched); a request whose header is \<open>Bearer\<close>, a
  space, and a token the verifier accepts is handed to the handler with \<open>user\<close> set
  to the claims recovered from the token.
\<close>

theorem guard_gates_protected_routes:
  "(authorization req = None \<longrightarrow>
      guarded verify handler req st = (error_response 401 ''No token'', st)
      \<and> status (fst (guarded verify handler req st)) = 401)
   \<and> (authorization req = Some (''Bearer '' @ tok) \<longrightarrow> (\<forall>c\<in>set tok. \<not> is_ws c) \<longrightarrow> verify tok = Inr d \<longrightarrow>
        guarded verify handler req st = handler (req\<lparr>user := Some d\<rparr>) st
        \<and> user (req\<lparr>user := Some d\<rparr>) = Some d)"
proof (intro conjI impI)
  assume "authorization req = None"
  then show "guarded verify handler req st = (error_response 401 ''No token'', st)"
    by (simp add: guarded_def auth_def)
  then show "status (fst (guarded verify handler req st)) = 401"
    by (simp add: error_response_def)
next
  assume h: "authorization req = Some (''Bearer '' @ tok)"
    and ws: "\<forall>c\<in>set tok. \<not> is_ws c" and ok: "verify tok = Inr d"
  from bearer_admits [where verify = verify, OF h ws ok]
  show "guarded verify handler req st = handler (req\<lparr>user := Some d\<rparr>) st"
    by (simp add: guarded_def)
next
  show "user (req\<lparr>user := Some d\<rparr>) = Some d" by simp
qed

theorem guard_gates_protected_routes_witness:
  "guarded (jwt_verify run_jwt (JWT_SECRET None) 5000) api_me
     \<lparr>authorization = None, body = (), user = None\<rparr> \<lparr>users = [], reading = []\<rparr>
     = (\<lparr>status = 401, json = JObj [(''error'', JStr ''No token'')]\<rparr>, \<lparr>users = [], reading = []\<rparr>)
   \<and> jwt_verify run_jwt (JWT_SECRET None) 5000 ''tercesved:a@gmail.com''
       = Inr \<lparr>identity = ''a@gmail.com'', issuedAt = 0, expiresAt = 604800\<rparr>
   \<and> guarded (jwt_verify run_jwt (JWT_SECRET None) 5000) api_me
       \<lparr>authorization = Some ''Bearer tercesved:a@gmail.com'', body = (), user = None\<rparr>
       \<lparr>users = [], reading = []\<rparr>
     = api_me \<lparr>authorization = Some ''Bearer tercesved:a@gmail.com'', body = (),
               user = Some \<lparr>identity = ''a@gmail.com'', issuedAt = 0, expiresAt = 604800\<rparr>\<rparr>
         \<lparr>users = [], reading = []\<rparr>"
proof -
  have h1: "authorization \<lparr>authorization = None, body = (), user = None\<rparr> = None"
    by simp
  have h2: "authorization \<lparr>authorization = Some ''Bearer tercesved:a@gmail.com'', body = (), user = None\<rparr>
              = Some (''Bearer '' @ ''tercesved:a@gmail.com'')"
    by simp
  have h3: "\<forall>c\<in>set ''tercesved:a@gmail.com''. \<not> is_ws c"
    by (simp add: is_ws_def js_whitespace_def)
  have h4: "jwt_verify run_jwt (JWT_SECRET None) 5000 ''tercesved:a@gmail.com''
              = Inr \<lparr>identity = ''a@gmail.com'', issuedAt = 0, expiresAt = 604800\<rparr>"
    by (simp add: jwt_verify_def run_jwt_def JWT_SECRET_def seven_days_def)
  show ?thesis
    using h1 h2 h3 h4
      guard_gates_protected_routes [where req = "\<lparr>authorization = None, body = (), user = None\<rparr>"
        and verify = "jwt_verify run_jwt (JWT_SECRET None) 5000" and handler = api_me
        and st = "\<lparr>users = [], reading = []\<rparr>"]
      guard_gates_protected_routes [where req = "\<lparr>authorization = Some ''Bearer tercesved:a@gmail.com'', body = (), user = None\<rparr>"
        and tok = "''tercesved:a@gmail.com''"
        and verify = "jwt_verify run_jwt (JWT_SECRET None) 5000" and handler = api_me
        and d = "\<lparr>identity = ''a@gmail.com'', issuedAt = 0, expiresAt = 604800\<rparr>"
        and st = "\<lparr>users = [], reading = []\<rparr>"]
    by (simp add: error_response_def)
qed

text \<open>
  Claim C10. The guard never looks at the scheme word. A header made of any word
  without a space, one space, and a token the verifier accepts is admitted with the
  token's claims, whether or not the word is \<open>Bearer\<close>. A header without a space, such
  as a bare token, is answered 401: the second space-separated component is missing,
  so the empty string is what gets verified.
\<close>

theorem guard_ignores_scheme:
  "(authorization req = Some (word @ CHR '' '' # tok) \<longrightarrow> CHR '' '' \<notin> set word \<longrightarrow>
      (\<forall>c\<in>set tok. \<not> is_ws c) \<longrightarrow> verify tok = Inr d \<longrightarrow>
        auth verify req = Inr (req\<lparr>user := Some d\<rparr>))
   \<and> (authorization req = Some tok \<longrightarrow> CHR '' '' \<notin> set tok \<longrightarrow> verify [] = Inl x \<longrightarrow>
        auth verify req = Inl (error_response 401 (if tok = [] then ''No token'' else ''Invalid token''))
        \<and> (\<exists>r. auth verify req = Inl r \<and> status r = 401))"
proof (intro conjI impI)
  assume h: "authorization req = Some (word @ CHR '' '' # tok)" and w: "CHR '' '' \<notin> set word"
    and ws: "\<forall>c\<in>set tok. \<not> is_ws c" and ok: "verify tok = Inr d"
  from extract_second[OF w ws] h ok
  show "auth verify req = Inr (req\<lparr>user := Some d\<rparr>)"
    by (simp add: auth_def)
next
  assume h: "authorization req = Some tok" and w: "CHR '' '' \<notin> set tok" and bad: "verify [] = Inl x"
  from extract_bare[OF w] h bad
  show res: "auth verify req = Inl (error_response 401 (if tok = [] then ''No token'' else ''Invalid token''))"
    by (simp add: auth_def)
  show "\<exists>r. auth verify req = Inl r \<and> status r = 401"
    unfolding res by (simp add: error_response_def)
qed

theorem guard_ignores_scheme_witness:
  "jwt_verify run_jwt (JWT_SECRET None) 5000 ''tercesved:a@gmail.com''
     = Inr \<lparr>identity = ''a@gmail.com'', issuedAt = 0, expiresAt = 604800\<rparr>
   \<and> auth (jwt_verify run_jwt (JWT_SECRET None) 5000)
       \<lparr>authorization = Some ''Basic tercesved:a@gmail.com'', body = (), user = None\<rparr>
     = Inr \<lparr>authorization = Some ''Basic tercesved:a@gmail.com'', body = (),
            user = Some \<lparr>identity = ''a@gmail.com'', issuedAt = 0, expiresAt = 604800\<rparr>\<rparr>
   \<and> auth (jwt_verify run_jwt (JWT_SECRET None) 5000)
       \<lparr>authorization = Some ''tercesved:a@gmail.com'', body = (), user = None\<rparr>
     = Inl \<lparr>status = 401, json = JObj [(''error'', JStr ''Invalid token'')]\<rparr>"
proof -
  have h1: "authorization \<lparr>authorization = Some ''Basic tercesved:a@gmail.com'', body = (), user = None\<rparr>
              = Some (''Basic'' @ CHR '' '' # ''tercesved:a@gmail.com'')"
    by simp
  have h2: "CHR '' '' \<notin> set ''Basic''" by simp
  have h3: "\<forall>c\<in>set ''tercesved:a@gmail.com''. \<not> is_ws c"
    by (simp add: is_ws_def js_whitespace_def)
  have h4: "jwt_verify run_jwt (JWT_SECRET None) 5000 ''tercesved:a@gmail.com''
              = Inr \<lparr>identity = ''a@gmail.com'', issuedAt = 0, expiresAt = 604800\<rparr>"
    by (simp add: jwt_verify_def run_jwt_def JWT_SECRET_def seven_days_def)
  have h5: "authorization \<lparr>authorization = Some ''tercesved:a@gmail.com'', body = (), user = None\<rparr>
              = Some ''tercesved:a@gmail.com''"
    by simp
  have h6: "CHR '' '' \<notin> set ''tercesved:a@gmail.com''" by simp
  have h7: "jwt_verify run_jwt (JWT_SECRET None) 5000 [] = Inl InvalidToken"
    by (simp add: jwt_verify_def run_jwt_def)
  show ?thesis
    using h1 h2 h3 h4 h5 h6 h7
      guard_ignores_scheme [where req = "\<lparr>authorization = Some ''Basic tercesved:a@gmail.com'', body = (), user = None\<rparr>"
        and word = "''Basic''" and tok = "''tercesved:a@gmail.com''"
        and verify = "jwt_verify run_jwt (JWT_SECRET None) 5000"
        and d = "\<lparr>identity = ''a@gmail.com'', issuedAt = 0, expiresAt = 604800\<rparr>"]
      guard_ignores_scheme [where req = "\<lparr>authorization = Some ''tercesved:a@gmail.com'', body = (), user = None\<rparr>"
        and tok = "''tercesved:a@gmail.com''"
        and verify = "jwt_verify run_jwt (JWT_SECRET None) 5000" and x = InvalidToken]
    by (simp add: error_response_def)
qed

section \<open>The routes behind the guard\<close>

text \<open>
  Claim C8. A request to GET /api/me whose bearer token the verifier accepts, for an
  identity that has an account, is answered with status 200 and that account's
  document without its \<open>passwordHash\<close> path: the body holds the address and
  \<open>createdAt\<close> only.
\<close>

theorem me_omits_password_hash:
  assumes hdr: "authorization req = Some (''Bearer '' @ tok)"
    and ws: "\<forall>c\<in>set tok. \<not> is_ws c"
    and ok: "verify tok = Inr d"
    and acct: "User_findOne (users st) (identity d) = Some u"
  shows "guarded verify api_me req st =
           (\<lparr>status = 200, json = JObj [(''email'', JStr (identity d)), (''createdAt'', JDate (createdAt u))]\<rparr>, st)
         \<and> get_field (json (fst (guarded verify api_me req st))) ''passwordHash'' = JUndefined
         \<and> email u = identity d"
proof -
  have eu: "email u = identity d"
    using acct unfolding User_findOne_def by (rule find_Some_holds)
  have res: "guarded verify api_me req st =
           (\<lparr>status = 200, json = JObj [(''email'', JStr (identity d)), (''createdAt'', JDate (createdAt u))]\<rparr>, st)"
    using bearer_admits[where verify = verify, OF hdr ws ok] acct eu
    by (simp add: guarded_def api_me_def json_response_def exclude_paths_def user_doc_def)
  show ?thesis unfolding res using eu by simp
qed

theorem me_omits_password_hash_witness:
  "guarded (jwt_verify run_jwt (JWT_SECRET None) 5000) api_me
     \<lparr>authorization = Some ''Bearer tercesved:test1@gmail.com'', body = (), user = None\<rparr>
     \<lparr>users = [\<lparr>email = ''test1@gmail.com'', passwordHash = ''salt$test123'', createdAt = 7\<rparr>], reading = []\<rparr>
   = (\<lparr>status = 200, json = JObj [(''email'', JStr ''test1@gmail.com''), (''createdAt'', JDate 7)]\<rparr>,
      \<lparr>users = [\<lparr>email = ''test1@gmail.com'', passwordHash = ''salt$test123'', createdAt = 7\<rparr>], reading = []\<rparr>)"
proof -
  have h1: "authorization \<lparr>authorization = Some ''Bearer tercesved:test1@gmail.com'', body = (), user = None\<rparr>
              = Some (''Bearer '' @ ''tercesved:test1@gmail.com'')"
    by simp
  have h2: "\<forall>c\<in>set ''tercesved:test1@gmail.com''. \<not> is_ws c"
    by (simp add: is_ws_def js_whitespace_def)
  have h3: "jwt_verify run_jwt (JWT_SECRET None) 5000 ''tercesved:test1@gmail.com''
              = Inr \<lparr>identity = ''test1@gmail.com'', issuedAt = 0, expiresAt = 604800\<rparr>"
    by (simp add: jwt_verify_def run_jwt_def JWT_SECRET_def seven_days_def)
  have h4: "User_findOne
              (users \<lparr>users = [\<lparr>email = ''test1@gmail.com'', passwordHash = ''salt$test123'', createdAt = 7\<rparr>],
                      reading = []\<rparr>)
              (identity \<lparr>identity = ''test1@gmail.com'', issuedAt = 0, expiresAt = 604800\<rparr>)
            = Some \<lparr>email = ''test1@gmail.com'', passwordHash = ''salt$test123'', createdAt = 7\<rparr>"
    by (simp add: User_findOne_def)
  show ?thesis
    using me_omits_password_hash [where verify = "jwt_verify run_jwt (JWT_SECRET None) 5000", OF h1 h2 h3 h4]
    by simp
qed

text \<open>
  The lookup of the reading list finds an entry exactly when the collection holds one
  with that address and that key, and the entry it returns is such a one.
\<close>

lemma ReadingList_findOne_None_iff:
  "ReadingList_findOne rl e k = None \<longleftrightarrow> \<not> (\<exists>i\<in>set rl. userEmail i = e \<and> bookKey i = k)"
  by (auto simp: ReadingList_findOne_def find_None_iff)

lemma ReadingList_findOne_Some:
  "ReadingList_findOne rl e k = Some i \<Longrightarrow> i \<in> set rl \<and> userEmail i = e \<and> bookKey i = k"
  by (auto simp: ReadingList_findOne_def find_Some_iff)

text \<open>
  Claim C9. A reading-list insert by an authenticated caller, with a non-empty
  \<open>bookKey\<close>: when the collection already holds an entry with the caller's address
  and that key it is answered 409 and nothing is stored; when it holds no such entry
  (whatever else it holds), exactly one entry is appended, carrying the caller's
  address, the key and the fields of the body, and it is answered 200 with that entry.
\<close>

theorem reading_insert_unique:
  assumes hdr: "authorization req = Some (''Bearer '' @ tok)"
    and ws: "\<forall>c\<in>set tok. \<not> is_ws c"
    and ok: "verify tok = Inr d"
    and idn: "identity d \<noteq> []"
    and key: "req_bookKey (body req) = Some k"
    and kne: "k \<noteq> []"
  shows "((\<exists>i\<in>set (reading st). userEmail i = identity d \<and> bookKey i = k) \<longrightarrow>
            guarded verify (api_reading_post now) req st = (error_response 409 ''Already in reading list'', st)
            \<and> status (fst (guarded verify (api_reading_post now) req st)) = 409)
         \<and> (\<not> (\<exists>i\<in>set (reading st). userEmail i = identity d \<and> bookKey i = k) \<longrightarrow>
            guarded verify (api_reading_post now) req st =
              (json_response
                 (item_doc \<lparr>userEmail = identity d, bookKey = k, title = req_title (body req),
                            coverId = req_coverId (body req),
                            authors = (case req_authors (body req) of None \<Rightarrow> [] | Some xs \<Rightarrow> xs),
                            addedAt = now\<rparr>),
               st\<lparr>reading := reading st @
                     [\<lparr>userEmail = identity d, bookKey = k, title = req_title (body req),
                       coverId = req_coverId (body req),
                       authors = (case req_authors (body req) of None \<Rightarrow> [] | Some xs \<Rightarrow> xs),
                       addedAt = now\<rparr>]\<rparr>)
            \<and> status (fst (guarded verify (api_reading_post now) req st)) = 200
            \<and> length (reading (snd (guarded verify (api_reading_post now) req st)))
                = Suc (length (reading st)))"
proof (intro conjI impI)
  assume ex: "\<exists>i\<in>set (reading st). userEmail i = identity d \<and> bookKey i = k"
  then have "ReadingList_findOne (reading st) (identity d) k \<noteq> None"
    by (simp add: ReadingList_findOne_None_iff)
  then obtain i where "ReadingList_findOne (reading st) (identity d) k = Some i"
    by auto
  then show res: "guarded verify (api_reading_post now) req st =
                    (error_response 409 ''Already in reading list'', st)"
    using bearer_admits[where verify = verify, OF hdr ws ok] key kne
    by (simp add: guarded_def api_reading_post_def)
  show "status (fst (guarded verify (api_reading_post now) req st)) = 409"
    unfolding res by (simp add: error_response_def)
next
  assume nex: "\<not> (\<exists>i\<in>set (reading st). userEmail i = identity d \<and> bookKey i = k)"
  then have none: "ReadingList_findOne (reading st) (identity d) k = None"
    by (simp add: ReadingList_findOne_None_iff)
  show res: "guarded verify (api_reading_post now) req st =
              (json_response
                 (item_doc \<lparr>userEmail = identity d, bookKey = k, title = req_title (body req),
                            coverId = req_coverId (body req),
                            authors = (case req_authors (body req) of None \<Rightarrow> [] | Some xs \<Rightarrow> xs),
                            addedAt = now\<rparr>),
               st\<lparr>reading := reading st @
                     [\<lparr>userEmail = identity d, bookKey = k, title = req_title (body req),
                       coverId = req_coverId (body req),
                       authors = (case req_authors (body req) of None \<Rightarrow> [] | Some xs \<Rightarrow> xs),
                       addedAt = now\<rparr>]\<rparr>)"
    using bearer_admits[where verify = verify, OF hdr ws ok] idn key kne none
    by (simp add: guarded_def api_reading_post_def ReadingList_create_def Let_def)
  show "status (fst (guarded verify (api_reading_post now) req st)) = 200"
    unfolding res by (simp add: json_response_def)
  show "length (reading (snd (guarded verify (api_reading_post now) req st)))
          = Suc (length (reading st))"
    unfolding res by simp
qed

text \<open>
  Run on the seeded reading list, extended by an entry of the second test user for
  another book: the first user's insert of the book already listed is refused, the
  second user's insert of the same book is stored.
\<close>

theorem reading_insert_unique_witness:
  "guarded (jwt_verify run_jwt (JWT_SECRET None) 5000) (api_reading_post 9)
     \<lparr>authorization = Some ''Bearer tercesved:test1@gmail.com'',
      body = \<lparr>req_bookKey = Some ''/works/OL45804W'', req_title = Some ''The Hobbit'',
               req_coverId = Some 12345, req_authors = Some [''J.R.R. Tolkien'']\<rparr>,
      user = None\<rparr>
     \<lparr>users = [],
      reading = [\<lparr>userEmail = ''test1@gmail.com'', bookKey = ''/works/OL45804W'',
                  title = Some ''The Hobbit'', coverId = Some 12345,
                  authors = [''J.R.R. Tolkien''], addedAt = 7\<rparr>,
                 \<lparr>userEmail = ''test2@gmail.com'', bookKey = ''/works/OL27448W'',
                  title = None, coverId = None, authors = [], addedAt = 8\<rparr>]\<rparr>
   = (\<lparr>status = 409, json = JObj [(''error'', JStr ''Already in reading list'')]\<rparr>,
      \<lparr>users = [],
       reading = [\<lparr>userEmail = ''test1@gmail.com'', bookKey = ''/works/OL45804W'',
                   title = Some ''The Hobbit'', coverId = Some 12345,
                   authors = [''J.R.R. Tolkien''], addedAt = 7\<rparr>,
                  \<lparr>userEmail = ''test2@gmail.com'', bookKey = ''/works/OL27448W'',
                   title = None, coverId = None, authors = [], addedAt = 8\<rparr>]\<rparr>)
   \<and> guarded (jwt_verify run_jwt (JWT_SECRET None) 5000) (api_reading_post 9)
       \<lparr>authorization = Some ''Bearer tercesved:test2@gmail.com'',
        body = \<lparr>req_bookKey = Some ''/works/OL45804W'', req_title = Some ''The Hobbit'',
                 req_coverId = None, req_authors = None\<rparr>,
        user = None\<rparr>
       \<lparr>users = [],
        reading = [\<lparr>userEmail = ''test1@gmail.com'', bookKey = ''/works/OL45804W'',
                    title = Some ''The Hobbit'', coverId = Some 12345,
                    authors = [''J.R.R. Tolkien''], addedAt = 7\<rparr>,
                   \<lparr>userEmail = ''test2@gmail.com'', bookKey = ''/works/OL27448W'',
                    title = None, coverId = None, authors = [], addedAt = 8\<rparr>]\<rparr>
     = (\<lparr>status = 200,
         json = item_doc \<lparr>userEmail = ''test2@gmail.com'', bookKey = ''/works/OL45804W'',
                           title = Some ''The Hobbit'', coverId = None,
                           authors = [], addedAt = 9\<rparr>\<rparr>,
        \<lparr>users = [],
         reading = [\<lparr>userEmail = ''test1@gmail.com'', bookKey = ''/works/OL45804W'',
                     title = Some ''The Hobbit'', coverId = Some 12345,
                     authors = [''J.R.R. Tolkien''], addedAt = 7\<rparr>,
                    \<lparr>userEmail = ''test2@gmail.com'', bookKey = ''/works/OL27448W'',
                     title = None, coverId = None, authors = [], addedAt = 8\<rparr>,
                    \<lparr>userEmail = ''test2@gmail.com'', bookKey = ''/works/OL45804W'',
                     title = Some ''The Hobbit'', coverId = None,
                     authors = [], addedAt = 9\<rparr>]\<rparr>)"
proof -
  let ?st = "\<lparr>users = [],
              reading = [\<lparr>userEmail = ''test1@gmail.com'', bookKey = ''/works/OL45804W'',
                          title = Some ''The Hobbit'', coverId = Some 12345,
                          authors = [''J.R.R. Tolkien''], addedAt = 7\<rparr>,
                         \<lparr>userEmail = ''test2@gmail.com'', bookKey = ''/works/OL27448W'',
                          title = None, coverId = None, authors = [], addedAt = 8\<rparr>]\<rparr>"
  let ?req1 = "\<lparr>authorization = Some ''Bearer tercesved:test1@gmail.com'',
                body = \<lparr>req_bookKey = Some ''/works/OL45804W'', req_title = Some ''The Hobbit'',
                         req_coverId = Some 12345, req_authors = Some [''J.R.R. Tolkien'']\<rparr>,
                user = None\<rparr>"
  let ?req2 = "\<lparr>authorization = Some ''Bearer tercesved:test2@gmail.com'',
                body = \<lparr>req_bookKey = Some ''/works/OL45804W'', req_title = Some ''The Hobbit'',
                         req_coverId = None, req_authors = None\<rparr>,
                user = None\<rparr>"
  let ?d1 = "\<lparr>identity = ''test1@gmail.com'', issuedAt = 0, expiresAt = 604800\<rparr>"
  let ?d2 = "\<lparr>identity = ''test2@gmail.com'', issuedAt = 0, expiresAt = 604800\<rparr>"
  have a1: "authorization ?req1 = Some (''Bearer '' @ ''tercesved:test1@gmail.com'')"
    by simp
  have a2: "\<forall>c\<in>set ''tercesved:test1@gmail.com''. \<not> is_ws c"
    by (simp add: is_ws_def js_whitespace_def)
  have a3: "jwt_verify run_jwt (JWT_SECRET None) 5000 ''tercesved:test1@gmail.com'' = Inr ?d1"
    by (simp add: jwt_verify_def run_jwt_def JWT_SECRET_def seven_days_def)
  have a4: "identity ?d1 \<noteq> []" by simp
  have a5: "req_bookKey (body ?req1) = Some ''/works/OL45804W''" by simp
  have b1: "authorization ?req2 = Some (''Bearer '' @ ''tercesved:test2@gmail.com'')"
    by simp
  have b2: "\<forall>c\<in>set ''tercesved:test2@gmail.com''. \<not> is_ws c"
    by (simp add: is_ws_def js_whitespace_def)
  have b3: "jwt_verify run_jwt (JWT_SECRET None) 5000 ''tercesved:test2@gmail.com'' = Inr ?d2"
    by (simp add: jwt_verify_def run_jwt_def JWT_SECRET_def seven_days_def)
  have b4: "identity ?d2 \<noteq> []" by simp
  have b5: "req_bookKey (body ?req2) = Some ''/works/OL45804W''" by simp
  have kne: "''/works/OL45804W'' \<noteq> []" by simp
  have held: "\<exists>i\<in>set (reading ?st). userEmail i = identity ?d1 \<and> bookKey i = ''/works/OL45804W''"
    by simp
  have free: "\<not> (\<exists>i\<in>set (reading ?st). userEmail i = identity ?d2 \<and> bookKey i = ''/works/OL45804W'')"
    by simp
  show ?thesis
    using held free
      reading_insert_unique [where verify = "jwt_verify run_jwt (JWT_SECRET None) 5000",
        OF a1 a2 a3 a4 a5 kne, where st = ?st and now = 9]
      reading_insert_unique [where verify = "jwt_verify run_jwt (JWT_SECRET None) 5000",
        OF b1 b2 b3 b4 b5 kne, where st = ?st and now = 9]
    by (simp add: error_response_def json_response_def)
qed

end
